theory Spec2Isabelle
  imports Complex_Main "HOL-Library.Sublist"
begin

section \<open>Python values used by the data collector\<close>

text \<open>
  A Python \<open>str\<close> is a sequence of code points, and \<open>len\<close> and slicing count code
  points, so a string is modelled as the list of its code points. \<open>lit\<close> turns an ASCII
  literal into such a string; the rupee sign of the price patterns and of the price display
  is the code point U+20B9.

  Numbers that are \<open>float\<close> in the source (prices, percent changes) are modelled by
  their exact rational value: comparisons are those of the values, and the rounding of
  float addition and of parsing a decimal text is not modelled.
\<close>

type_synonym ustr = "nat list"

definition lit :: "string \<Rightarrow> ustr" where
  "lit s = map of_char s"

definition rupee :: nat where
  "rupee = 0x20B9"

text \<open>\<open>str.lower()\<close>, on the ASCII letters; other code points are left as they are.\<close>

definition lower_cp :: "nat \<Rightarrow> nat" where
  "lower_cp c = (if 65 \<le> c \<and> c \<le> 90 then c + 32 else c)"

definition lower :: "ustr \<Rightarrow> ustr" where
  "lower s = map lower_cp s"

text \<open>\<open>sub in text\<close>: \<open>sub\<close> occurs in \<open>text\<close> as a contiguous run.\<close>

fun str_contains :: "'a list \<Rightarrow> 'a list \<Rightarrow> bool" where
  "str_contains sub [] = (sub = [])"
| "str_contains sub (x # xs) = (prefix sub (x # xs) \<or> str_contains sub xs)"

text \<open>\<open>any(w in text for w in words)\<close>.\<close>

definition any_in :: "ustr list \<Rightarrow> ustr \<Rightarrow> bool" where
  "any_in ws text = list_ex (\<lambda>w. str_contains w text) ws"

subsection \<open>Decimal formatting\<close>

fun digits :: "nat \<Rightarrow> ustr" where
  "digits n = (if n < 10 then [48 + n] else digits (n div 10) @ [48 + n mod 10])"

declare digits.simps [simp del]

definition pad2 :: "nat \<Rightarrow> ustr" where
  "pad2 n = [48 + (n div 10) mod 10, 48 + n mod 10]"

definition pad3 :: "nat \<Rightarrow> ustr" where
  "pad3 n = [48 + (n div 100) mod 10, 48 + (n div 10) mod 10, 48 + n mod 10]"

text \<open>The integer part with the \<open>,\<close> option of the format: groups of three digits.\<close>

fun group_thousands :: "nat \<Rightarrow> ustr" where
  "group_thousands n =
     (if n < 1000 then digits n else group_thousands (n div 1000) @ lit '','' @ pad3 (n mod 1000))"

declare group_thousands.simps [simp del]

text \<open>Rounding to the nearest integer, a tie going to the even neighbour.\<close>

definition round_half_even :: "rat \<Rightarrow> int" where
  "round_half_even x =
     (let f = \<lfloor>x\<rfloor>; d = x - of_int f
      in if d < 1 / 2 then f else if 1 / 2 < d then f + 1 else if even f then f else f + 1)"

definition hundredths :: "rat \<Rightarrow> nat" where
  "hundredths x = nat (round_half_even (\<bar>x\<bar> * 100))"

text \<open>\<open>f"{x:,.2f}"\<close>: two decimals, thousands separated.\<close>

definition fmt_comma_2f :: "rat \<Rightarrow> ustr" where
  "fmt_comma_2f x =
     (let c = hundredths x
      in (if x < 0 then lit ''-'' else []) @ group_thousands (c div 100) @ lit ''.'' @ pad2 (c mod 100))"

text \<open>\<open>f"{x:+.2f}"\<close>: two decimals, always signed.\<close>

definition fmt_plus_2f :: "rat \<Rightarrow> ustr" where
  "fmt_plus_2f x =
     (let c = hundredths x
      in (if x < 0 then lit ''-'' else lit ''+'') @ digits (c div 100) @ lit ''.'' @ pad2 (c mod 100))"

section \<open>The stock signal\<close>

text \<open>
  The values of the \<open>trend\<close>, \<open>recommendation\<close> and \<open>confidence\<close> keys are fixed
  string literals in the source: \<open>"bullish"\<close>, \<open>"bearish"\<close>, \<open>"neutral"\<close>;
  \<open>"STRONG BUY"\<close>, \<open>"BUY"\<close>, \<open>"HOLD"\<close>, \<open>"SELL"\<close>; \<open>"High"\<close>, \<open>"Moderate"\<close>,
  \<open>"Strong"\<close>, \<open>"Low (limited data)"\<close>. Each family is a datatype.
\<close>

datatype trend = Bullish | Bearish | Neutral

datatype recommendation = STRONG_BUY | BUY | HOLD | SELL

datatype confidence = High | Moderate | Strong | Low_limited_data

datatype data_type = Live | Web_aggregated

text \<open>
  The dictionary returned by the stock lookup. \<open>change_24hr\<close> and \<open>volume\<close> are keys
  of the API result only.
\<close>

record stock_data =
  ticker :: ustr
  company :: ustr
  current_price :: ustr
  change_24hr :: "ustr option"
  price_change_pct :: ustr
  volume :: "ustr option"
  trend :: trend
  recommendation :: recommendation
  confidence :: confidence
  source :: ustr
  sources_analyzed :: nat
  data_type :: data_type
  verified :: bool

section \<open>Extraction from search snippets\<close>

record stock_info =
  si_ticker :: ustr
  si_company :: ustr
  prices_found :: "rat list"
  trends_found :: "trend list"
  recommendations_found :: "recommendation list"
  sources_checked :: "ustr list"

definition bullish_words :: "ustr list" where
  "bullish_words = map lit [''rises'', ''gains'', ''jumps'', ''surges'', ''up'', ''rallies'',
     ''bullish'', ''positive'', ''growth'']"

definition bearish_words :: "ustr list" where
  "bearish_words = map lit [''falls'', ''drops'', ''declines'', ''down'', ''tumbles'',
     ''bearish'', ''negative'', ''loss'']"

text \<open>
  \<open>for word in words: if word in text: trends_found.append(vote); break\<close>
\<close>

fun first_word_vote :: "ustr list \<Rightarrow> ustr \<Rightarrow> trend \<Rightarrow> trend list \<Rightarrow> trend list" where
  "first_word_vote [] text v found = found"
| "first_word_vote (w # ws) text v found =
     (if str_contains w text then found @ [v] else first_word_vote ws text v found)"

definition extract_trend_from_text :: "ustr \<Rightarrow> ustr \<Rightarrow> stock_info \<Rightarrow> stock_info" where
  "extract_trend_from_text snippet title info =
     (let text = lower (snippet @ lit '' '' @ title);
          info1 = info\<lparr>trends_found := first_word_vote bullish_words text Bullish (trends_found info)\<rparr>
      in info1\<lparr>trends_found := first_word_vote bearish_words text Bearish (trends_found info1)\<rparr>)"

definition extract_recommendation_from_text :: "ustr \<Rightarrow> ustr \<Rightarrow> stock_info \<Rightarrow> stock_info" where
  "extract_recommendation_from_text snippet title info =
     (let text = lower (snippet @ lit '' '' @ title)
      in if any_in (map lit [''strong buy'', ''buy rating'', ''outperform'', ''accumulate'']) text
         then info\<lparr>recommendations_found := recommendations_found info @ [BUY]\<rparr>
         else if any_in (map lit [''sell rating'', ''underperform'', ''avoid'', ''reduce'']) text
         then info\<lparr>recommendations_found := recommendations_found info @ [SELL]\<rparr>
         else if any_in (map lit [''hold'', ''neutral'', ''maintain'']) text
         then info\<lparr>recommendations_found := recommendations_found info @ [HOLD]\<rparr>
         else info)"

subsection \<open>Price mentions\<close>

text \<open>
  The three patterns of \<open>_extract_price_from_text\<close>, searched with \<open>re.IGNORECASE\<close>:
  the rupee sign followed by \<^verbatim>\<open>'\s*([\d,]+(?:\.\d+)?)'\<close>, \<^verbatim>\<open>'rs\.?\s*([\d,]+(?:\.\d+)?)'\<close> and
  \<^verbatim>\<open>'inr\s*([\d,]+(?:\.\d+)?)'\<close>. The character classes are modelled on ASCII:
  \<open>\d\<close> is \<open>0\<close> to \<open>9\<close>, \<open>\s\<close> is the ASCII white space, and the letters of a prefix
  match in either case.

  Every quantifier of the patterns is greedy, and none can give a character back to the
  part that follows it (white space, digits and commas, and the dot are disjoint), so the
  match at a position is found by taking each run as long as it goes.
\<close>

datatype price_pattern = Pat_rupee | Pat_rs | Pat_inr

definition is_space :: "nat \<Rightarrow> bool" where
  "is_space c = (c = 32 \<or> (9 \<le> c \<and> c \<le> 13) \<or> (28 \<le> c \<and> c \<le> 31))"

definition is_digit :: "nat \<Rightarrow> bool" where
  "is_digit c = (48 \<le> c \<and> c \<le> 57)"

definition is_digit_or_comma :: "nat \<Rightarrow> bool" where
  "is_digit_or_comma c = (is_digit c \<or> c = 44)"

text \<open>The literal prefix of a pattern: the text after it, when it is there.\<close>

fun match_prefix :: "price_pattern \<Rightarrow> ustr \<Rightarrow> ustr option" where
  "match_prefix Pat_rupee s =
     (case s of [] \<Rightarrow> None | c # r \<Rightarrow> if c = rupee then Some r else None)"
| "match_prefix Pat_rs s =
     (if lower (take 2 s) = lit ''rs''
      then Some (case drop 2 s of [] \<Rightarrow> [] | c # r \<Rightarrow> if c = 46 then r else c # r)
      else None)"
| "match_prefix Pat_inr s =
     (if lower (take 3 s) = lit ''inr'' then Some (drop 3 s) else None)"

text \<open>A match at the start of \<open>s\<close>: the captured group and how many code points matched.\<close>

definition match_at :: "price_pattern \<Rightarrow> ustr \<Rightarrow> (ustr \<times> nat) option" where
  "match_at p s =
     (case match_prefix p s of
        None \<Rightarrow> None
      | Some r \<Rightarrow>
          (let r1 = dropWhile is_space r;
               ip = takeWhile is_digit_or_comma r1;
               r2 = dropWhile is_digit_or_comma r1
           in if ip = [] then None
              else (case r2 of
                      [] \<Rightarrow> Some (ip, length s)
                    | dot # r3 \<Rightarrow>
                        if dot = 46 \<and> takeWhile is_digit r3 \<noteq> []
                        then Some (ip @ [46] @ takeWhile is_digit r3,
                                   length s - length (dropWhile is_digit r3))
                        else Some (ip, length s - length r2))))"

text \<open>
  \<open>re.findall(pattern, text, re.IGNORECASE)\<close>: the groups of the matches, found from left
  to right, the search going on where the previous match ended.
\<close>

fun findall :: "price_pattern \<Rightarrow> ustr \<Rightarrow> ustr list" where
  "findall p [] = []"
| "findall p (c # cs) =
     (case match_at p (c # cs) of
        None \<Rightarrow> findall p cs
      | Some (g, n) \<Rightarrow> g # findall p (drop (n - 1) cs))"

definition digits_value :: "ustr \<Rightarrow> int" where
  "digits_value ds = foldl (\<lambda>acc c. 10 * acc + (int c - 48)) 0 ds"

text \<open>
  \<open>float(s)\<close> on the texts a group without its commas can be: digits, with an optional
  fraction. \<open>None\<close> is the \<open>ValueError\<close> (the group held commas only).
\<close>

definition parse_float :: "ustr \<Rightarrow> rat option" where
  "parse_float s =
     (let ip = takeWhile is_digit s; rest = dropWhile is_digit s
      in case rest of
           [] \<Rightarrow> if ip = [] then None else Some (of_int (digits_value ip))
         | dot # fr \<Rightarrow>
             if dot = 46 \<and> fr \<noteq> [] \<and> list_all is_digit fr
             then Some (of_int (digits_value ip) + of_int (digits_value fr) / 10 ^ length fr)
             else None)"

text \<open>\<open>match.replace(",", "")\<close>\<close>

definition remove_commas :: "ustr \<Rightarrow> ustr" where
  "remove_commas s = filter (\<lambda>c. c \<noteq> 44) s"

text \<open>
  \<open>for match in matches: try: price = float(...); if 10 < price < 500000: append
  except: pass\<close>
\<close>

definition in_price_range :: "rat \<Rightarrow> bool" where
  "in_price_range price = (10 < price \<and> price < 500000)"

fun add_prices :: "ustr list \<Rightarrow> rat list \<Rightarrow> rat list" where
  "add_prices [] found = found"
| "add_prices (m # ms) found =
     (case parse_float (remove_commas m) of
        None \<Rightarrow> add_prices ms found
      | Some price \<Rightarrow>
          if in_price_range price then add_prices ms (found @ [price])
          else add_prices ms found)"

definition inr_patterns :: "price_pattern list" where
  "inr_patterns = [Pat_rupee, Pat_rs, Pat_inr]"

definition extract_price_from_text :: "ustr \<Rightarrow> stock_info \<Rightarrow> stock_info" where
  "extract_price_from_text text info =
     info\<lparr>prices_found :=
       foldl (\<lambda>found p. add_prices (findall p text) found) (prices_found info) inr_patterns\<rparr>"

section \<open>Aggregation of the findings\<close>

text \<open>\<open>avg_price = sum(prices) / len(prices) if prices else None\<close>\<close>

definition avg_price :: "rat list \<Rightarrow> rat option" where
  "avg_price prices =
     (if prices \<noteq> [] then Some (sum_list prices / of_nat (length prices)) else None)"

text \<open>The trend consensus of \<open>_aggregate_stock_findings\<close>.\<close>

definition trend_consensus :: "trend list \<Rightarrow> trend" where
  "trend_consensus trends =
     (if trends \<noteq> [] then
        (let bullish_count = count_list trends Bullish;
             bearish_count = count_list trends Bearish
         in if bullish_count > bearish_count then Bullish
            else if bearish_count > bullish_count then Bearish else Neutral)
      else Neutral)"

text \<open>The recommendation consensus and its confidence.\<close>

definition recommendation_consensus :: "recommendation list \<Rightarrow> recommendation \<times> confidence" where
  "recommendation_consensus recs =
     (if recs \<noteq> [] then
        (let buy_count = count_list recs BUY;
             sell_count = count_list recs SELL;
             hold_count = count_list recs HOLD
         in if buy_count \<ge> sell_count \<and> buy_count \<ge> hold_count
            then (BUY, if buy_count > 2 then Strong else Moderate)
            else if sell_count > buy_count \<and> sell_count \<ge> hold_count
            then (SELL, if sell_count > 2 then Strong else Moderate)
            else (HOLD, Moderate))
      else (HOLD, Low_limited_data))"

text \<open>
  \<open>price_display\<close>: the test \<open>if avg_price\<close> is false for \<open>None\<close> and for a zero
  average.
\<close>

definition price_display :: "rat option \<Rightarrow> ustr" where
  "price_display avg =
     (case avg of
        None \<Rightarrow> lit ''Data unavailable''
      | Some a \<Rightarrow> if a \<noteq> 0 then rupee # fmt_comma_2f a else lit ''Data unavailable'')"

definition aggregate_stock_findings :: "stock_info \<Rightarrow> ustr \<Rightarrow> ustr \<Rightarrow> stock_data" where
  "aggregate_stock_findings info company_name tick =
     (let prices = prices_found info;
          trends = trends_found info;
          recs = recommendations_found info;
          sources_count = length (remdups (sources_checked info))
      in \<lparr>ticker = tick,
          company = company_name,
          current_price = price_display (avg_price prices),
          change_24hr = None,
          price_change_pct =
            (if trends \<noteq> []
             then lit ''~'' @ digits (nat \<bar>int (count_list trends Bullish) - int (count_list trends Bearish)\<bar>)
                    @ lit ''% (est.)''
             else lit ''N/A''),
          volume = None,
          trend = trend_consensus trends,
          recommendation = fst (recommendation_consensus recs),
          confidence = snd (recommendation_consensus recs),
          source = lit ''Web search ('' @ digits sources_count @ lit '' sources)'',
          sources_analyzed = max sources_count 1,
          data_type = Web_aggregated,
          verified = False\<rparr>)"

section \<open>The outside world\<close>

text \<open>
  An exception carries its message (\<open>str(e)\<close>). A call of an external service either
  raises (\<open>Inl\<close>) or returns (\<open>Inr\<close>).
\<close>

datatype exn = Exn ustr

text \<open>
  A hit of the text search, read with \<open>r.get("title", "")\<close>, \<open>r.get("body", "")\<close> and
  \<open>r.get("href", "")\<close>: a missing key is the empty string.
\<close>

record search_hit =
  hit_title :: ustr
  hit_body :: ustr
  hit_href :: ustr

record news_hit =
  nh_title :: ustr
  nh_body :: ustr
  nh_url :: ustr
  nh_date :: ustr

record wiki_page =
  page_summary :: ustr
  page_fullurl :: ustr
  page_title :: ustr

text \<open>
  The JSON body of the quote service, with the fields \<open>_fetch_indian_api\<close> reads:
  a number or absent (\<open>None\<close>) each; \<open>percentChange\<close> is a number or a mapping by
  exchange.
\<close>

datatype percent_change = Pct_scalar rat | Pct_by_exchange "rat option" "rat option"

record quote =
  has_error_key :: bool
  nse_price :: "rat option"
  bse_price :: "rat option"
  price_field :: "rat option"
  last_price :: "rat option"
  percent_change :: "percent_change option"
  symbol :: "ustr option"
  company_name_field :: "ustr option"
  total_traded_volume :: "ustr option"

text \<open>
  What \<open>response.json()\<close> gives: it raises (as does any later read of a body of another
  shape, inside the same \<open>try\<close>), or the body is falsy, or it is a quote.
\<close>

datatype json_body = Json_raises exn | Json_falsy | Json_quote quote

datatype http_result = Http_raises exn | Http_response nat json_body

record world =
  env_api_key :: ustr
  http_get_stock :: "ustr \<Rightarrow> ustr \<Rightarrow> http_result"
  ddgs_text :: "ustr \<Rightarrow> nat \<Rightarrow> exn + search_hit list"
  ddgs_news :: "ustr \<Rightarrow> nat \<Rightarrow> exn + news_hit list"
  wiki_lookup :: "ustr \<Rightarrow> exn + wiki_page option"

section \<open>The web search for stock data\<close>

text \<open>The body of the loop over the results of one query.\<close>

definition process_hit :: "search_hit \<Rightarrow> stock_info \<Rightarrow> stock_info" where
  "process_hit r info =
     (let snippet = lower (hit_body r);
          title = hit_title r;
          src = hit_href r;
          info1 = info\<lparr>sources_checked := sources_checked info @ [take 50 src]\<rparr>;
          info2 = extract_price_from_text snippet info1;
          info3 = extract_trend_from_text snippet title info2
      in extract_recommendation_from_text snippet title info3)"

text \<open>
  The loop over the queries, inside the \<open>try\<close>: a query that raises ends the loop, and
  what was found before it stays in \<open>stock_info\<close>. A failure to open the search client
  is the failure of the first query.
\<close>

fun scrape_queries :: "(ustr \<Rightarrow> nat \<Rightarrow> exn + search_hit list) \<Rightarrow> ustr list \<Rightarrow> stock_info \<Rightarrow> stock_info" where
  "scrape_queries search [] info = info"
| "scrape_queries search (q # qs) info =
     (case search q 3 of
        Inl e \<Rightarrow> info
      | Inr results \<Rightarrow> scrape_queries search qs (foldl (\<lambda>i r. process_hit r i) info results))"

definition search_queries :: "ustr \<Rightarrow> ustr list" where
  "search_queries company_name =
     [company_name @ lit '' stock price today INR'',
      company_name @ lit '' share price live'',
      company_name @ lit '' stock buy or sell recommendation'',
      company_name @ lit '' stock forecast'']"

text \<open>The \<open>stock_info\<close> the search starts from: nothing found yet.\<close>

definition new_stock_info :: "ustr \<Rightarrow> ustr \<Rightarrow> stock_info" where
  "new_stock_info company_name tick =
     \<lparr>si_ticker = tick, si_company = company_name, prices_found = [],
      trends_found = [], recommendations_found = [], sources_checked = []\<rparr>"

definition scrape_stock_data_from_web :: "world \<Rightarrow> ustr \<Rightarrow> ustr \<Rightarrow> stock_data" where
  "scrape_stock_data_from_web w company_name tick =
     aggregate_stock_findings
       (scrape_queries (ddgs_text w) (search_queries company_name) (new_stock_info company_name tick))
       company_name tick"

section \<open>The quote service\<close>

text \<open>\<open>str.upper()\<close>, on the ASCII letters.\<close>

definition upper_cp :: "nat \<Rightarrow> nat" where
  "upper_cp c = (if 97 \<le> c \<and> c \<le> 122 then c - 32 else c)"

definition upper :: "ustr \<Rightarrow> ustr" where
  "upper s = map upper_cp s"

text \<open>\<open>d.get(key, 0)\<close> on a numeric field, and \<open>a or b\<close> on numbers.\<close>

definition get0 :: "rat option \<Rightarrow> rat" where
  "get0 v = (case v of None \<Rightarrow> 0 | Some x \<Rightarrow> x)"

definition py_or :: "rat \<Rightarrow> rat \<Rightarrow> rat" where
  "py_or a b = (if a \<noteq> 0 then a else b)"

definition get_recommendation :: "rat \<Rightarrow> recommendation" where
  "get_recommendation change_pct =
     (if change_pct > 2 then STRONG_BUY
      else if change_pct > 0 then BUY
      else if change_pct > - 2 then HOLD
      else SELL)"

text \<open>The price \<open>_fetch_indian_api\<close> resolves from a quote; \<open>0\<close> is "no price".\<close>

definition resolved_price :: "quote \<Rightarrow> rat" where
  "resolved_price data =
     (let price = py_or (get0 (nse_price data)) (get0 (bse_price data))
      in if price = 0 then py_or (get0 (price_field data)) (get0 (last_price data)) else price)"

text \<open>
  The percent change it resolves: \<open>float(pct_change) if pct_change else 0\<close> after the
  look into a mapping by exchange.
\<close>

definition resolved_pct_change :: "quote \<Rightarrow> rat" where
  "resolved_pct_change data =
     (case percent_change data of
        None \<Rightarrow> 0
      | Some (Pct_scalar c) \<Rightarrow> c
      | Some (Pct_by_exchange n b) \<Rightarrow> py_or (get0 n) (get0 b))"

text \<open>The dictionary built from a price and a percent change.\<close>

definition live_stock_data :: "quote \<Rightarrow> ustr \<Rightarrow> rat \<Rightarrow> rat \<Rightarrow> stock_data" where
  "live_stock_data data company_name price pct_change =
     \<lparr>ticker = (case symbol data of None \<Rightarrow> take 6 (upper company_name) | Some t \<Rightarrow> t),
      company = (case company_name_field data of None \<Rightarrow> company_name | Some c \<Rightarrow> c),
      current_price = rupee # fmt_comma_2f price,
      change_24hr = Some (fmt_plus_2f pct_change @ lit ''%''),
      price_change_pct = fmt_plus_2f pct_change @ lit ''%'',
      volume = Some (case total_traded_volume data of None \<Rightarrow> lit ''N/A'' | Some v \<Rightarrow> v),
      trend = (if pct_change > 0 then Bullish else if pct_change < 0 then Bearish else Neutral),
      recommendation = get_recommendation pct_change,
      confidence = (if \<bar>pct_change\<bar> > 2 then High else Moderate),
      source = lit ''IndianAPI (Live NSE/BSE)'',
      sources_analyzed = 1,
      data_type = Live,
      verified = True\<rparr>"

text \<open>
  \<open>_fetch_indian_api\<close>: every exception of the request or of reading the body is caught
  by the \<open>except\<close> of the function, which then returns \<open>None\<close>.
\<close>

definition fetch_indian_api :: "world \<Rightarrow> ustr \<Rightarrow> ustr \<Rightarrow> stock_data option" where
  "fetch_indian_api w company_name api_key =
     (case http_get_stock w company_name api_key of
        Http_raises e \<Rightarrow> None
      | Http_response status_code body \<Rightarrow>
          if status_code \<noteq> 200 then None
          else (case body of
                  Json_raises e \<Rightarrow> None
                | Json_falsy \<Rightarrow> None
                | Json_quote data \<Rightarrow>
                    if has_error_key data then None
                    else (let price = resolved_price data
                          in if price = 0 then None
                             else Some (live_stock_data data company_name price
                                          (resolved_pct_change data)))))"

section \<open>Choosing the source of the stock data\<close>

text \<open>
  \<open>_get_stock_data_multi_source\<close> returns the stock data; the model returns with it the
  lookups the call ran, in order: \<open>Tier_api\<close> for a call of \<open>_fetch_indian_api\<close>,
  \<open>Tier_web\<close> for a call of \<open>_scrape_stock_data_from_web\<close>.
\<close>

datatype tier = Tier_api | Tier_web

text \<open>
  \<open>indian_data and indian_data.get("current_price") and "N/A" not in
  indian_data.get("current_price", "")\<close>
\<close>

definition accepted :: "stock_data \<Rightarrow> bool" where
  "accepted indian_data =
     (current_price indian_data \<noteq> [] \<and> \<not> str_contains (lit ''N/A'') (current_price indian_data))"

definition get_stock_data_multi_source :: "world \<Rightarrow> ustr \<Rightarrow> tier list \<times> stock_data" where
  "get_stock_data_multi_source w company_name =
     (let tick = take 6 (upper company_name);
          api_key = env_api_key w
      in if api_key \<noteq> [] \<and> api_key \<noteq> lit ''your_indian_api_key_here''
         then (case fetch_indian_api w company_name api_key of
                 None \<Rightarrow> ([Tier_api, Tier_web], scrape_stock_data_from_web w company_name tick)
               | Some indian_data \<Rightarrow>
                   if accepted indian_data then ([Tier_api], indian_data)
                   else ([Tier_api, Tier_web], scrape_stock_data_from_web w company_name tick))
         else ([Tier_web], scrape_stock_data_from_web w company_name tick))"

section \<open>The other lookups\<close>

record wiki_data =
  wd_description :: ustr
  wd_url :: ustr
  wd_title :: ustr

text \<open>
  The loop of \<open>_search_wikipedia\<close> over the search terms: the first page that exists is
  returned; a lookup that raises ends the loop with the exception.
\<close>

fun first_existing_page :: "(ustr \<Rightarrow> exn + wiki_page option) \<Rightarrow> ustr list \<Rightarrow> exn + wiki_page option" where
  "first_existing_page lookup [] = Inr None"
| "first_existing_page lookup (t # ts) =
     (case lookup t of
        Inl e \<Rightarrow> Inl e
      | Inr None \<Rightarrow> first_existing_page lookup ts
      | Inr (Some page) \<Rightarrow> Inr (Some page))"

definition search_wikipedia :: "world \<Rightarrow> ustr \<Rightarrow> wiki_data option" where
  "search_wikipedia w company_name =
     (case first_existing_page (wiki_lookup w)
             [company_name, company_name @ lit '' company'', company_name @ lit '' corporation''] of
        Inl e \<Rightarrow> None
      | Inr None \<Rightarrow> None
      | Inr (Some page) \<Rightarrow>
          Some \<lparr>wd_description = take 800 (page_summary page),
                wd_url = page_fullurl page,
                wd_title = page_title page\<rparr>)"

record news_item =
  ni_title :: ustr
  ni_summary :: ustr
  ni_url :: ustr
  ni_date :: ustr

definition search_news :: "world \<Rightarrow> ustr \<Rightarrow> news_item list" where
  "search_news w company_name =
     (case ddgs_news w (company_name @ lit '' stock'') 5 of
        Inl e \<Rightarrow> []
      | Inr results \<Rightarrow>
          map (\<lambda>r. \<lparr>ni_title = nh_title r, ni_summary = take 200 (nh_body r),
                      ni_url = nh_url r, ni_date = nh_date r\<rparr>) results)"

text \<open>\<open>_search_official_website\<close>: the \<open>official_url\<close> of the first hit, if any.\<close>

definition search_official_website :: "world \<Rightarrow> ustr \<Rightarrow> ustr option" where
  "search_official_website w company_name =
     (case ddgs_text w (company_name @ lit '' official website'') 1 of
        Inl e \<Rightarrow> None
      | Inr [] \<Rightarrow> None
      | Inr (r # rs) \<Rightarrow> Some (hit_href r))"

section \<open>The collected profile\<close>

datatype data_quality = Q_unknown | Q_high | Q_medium | Q_low | Q_insufficient | Q_error

text \<open>The \<open>company_info\<close> dictionary: a key that is absent is \<open>None\<close>.\<close>

record company_info =
  ci_description :: "ustr option"
  ci_url :: "ustr option"
  ci_title :: "ustr option"
  ci_official_url :: "ustr option"

text \<open>
  \<open>collected_data\<close>. An empty \<open>stock_performance\<close> dictionary is \<open>None\<close>; the
  \<open>error\<close> key is absent until the \<open>except\<close> branch sets it; the \<open>timestamp\<close> is
  left out.
\<close>

record profile =
  company_name :: ustr
  company_info :: company_info
  news :: "news_item list"
  stock_performance :: "stock_data option"
  sources :: "ustr list"
  data_quality :: data_quality
  error_msg :: "ustr option"

text \<open>The score \<open>_assess_data_quality\<close> adds up, and the tier it maps it to.\<close>

definition quality_score :: "profile \<Rightarrow> nat" where
  "quality_score data =
     (if (case ci_description (company_info data) of None \<Rightarrow> False | Some d \<Rightarrow> d \<noteq> []) then 2 else 0)
     + (if news data \<noteq> [] \<and> length (news data) > 0 then 2 else 0)
     + (if (case stock_performance data of None \<Rightarrow> False | Some sp \<Rightarrow> current_price sp \<noteq> [])
        then 2 else 0)
     + (if length (sources data) \<ge> 3 then 1 else 0)"

definition assess_data_quality :: "profile \<Rightarrow> data_quality" where
  "assess_data_quality data =
     (let score = quality_score data
      in if score \<ge> 5 then Q_high
         else if score \<ge> 3 then Q_medium
         else if score \<ge> 1 then Q_low
         else Q_insufficient)"

text \<open>
  The four lookups \<open>collect_data\<close> calls, as it sees them: each returns, or raises.
\<close>

record lookups =
  lk_wikipedia :: "ustr \<Rightarrow> exn + wiki_data option"
  lk_news :: "ustr \<Rightarrow> exn + news_item list"
  lk_official_website :: "ustr \<Rightarrow> exn + ustr option"
  lk_stock :: "ustr \<Rightarrow> exn + stock_data"

text \<open>The numbered steps of the \<open>try\<close> block of \<open>collect_data\<close>.\<close>

definition step_wikipedia :: "lookups \<Rightarrow> profile \<Rightarrow> exn + profile" where
  "step_wikipedia lk c =
     (case lk_wikipedia lk (company_name c) of
        Inl e \<Rightarrow> Inl e
      | Inr None \<Rightarrow> Inr c
      | Inr (Some wiki) \<Rightarrow>
          Inr (c\<lparr>company_info := (company_info c)\<lparr>ci_description := Some (wd_description wiki),
                     ci_url := Some (wd_url wiki), ci_title := Some (wd_title wiki)\<rparr>,
                   sources := sources c @ [lit ''Wikipedia: '' @ wd_url wiki]\<rparr>))"

definition step_news :: "lookups \<Rightarrow> profile \<Rightarrow> exn + profile" where
  "step_news lk c =
     (case lk_news lk (company_name c) of
        Inl e \<Rightarrow> Inl e
      | Inr news_data \<Rightarrow>
          if news_data \<noteq> []
          then Inr (c\<lparr>news := news_data,
                      sources := sources c @
                        map (\<lambda>article. lit ''News: '' @ ni_url article)
                          (filter (\<lambda>article. ni_url article \<noteq> []) (take 3 news_data))\<rparr>)
          else Inr c)"

definition step_official_website :: "lookups \<Rightarrow> profile \<Rightarrow> exn + profile" where
  "step_official_website lk c =
     (case lk_official_website lk (company_name c) of
        Inl e \<Rightarrow> Inl e
      | Inr None \<Rightarrow> Inr c
      | Inr (Some official) \<Rightarrow>
          Inr (c\<lparr>company_info := (company_info c)\<lparr>ci_official_url := Some official\<rparr>\<rparr>))"

definition step_stock :: "lookups \<Rightarrow> profile \<Rightarrow> exn + profile" where
  "step_stock lk c =
     (case lk_stock lk (company_name c) of
        Inl e \<Rightarrow> Inl e
      | Inr stock \<Rightarrow>
          Inr (c\<lparr>stock_performance := Some stock,
                   sources := sources c @ [lit ''Stock: '' @ source stock]\<rparr>))"

definition step_quality :: "profile \<Rightarrow> exn + profile" where
  "step_quality c = Inr (c\<lparr>data_quality := assess_data_quality c\<rparr>)"

text \<open>
  The \<open>try\<close> block runs the steps in order on the dictionary it fills; a step that
  raises leaves what the steps before it stored, and the \<open>except\<close> branch marks the
  result.
\<close>

fun run_steps :: "(profile \<Rightarrow> exn + profile) list \<Rightarrow> profile \<Rightarrow> profile" where
  "run_steps [] c = c"
| "run_steps (f # fs) c =
     (case f c of
        Inl (Exn msg) \<Rightarrow> c\<lparr>data_quality := Q_error, error_msg := Some msg\<rparr>
      | Inr c' \<Rightarrow> run_steps fs c')"

definition collect_data_with :: "lookups \<Rightarrow> ustr \<Rightarrow> profile" where
  "collect_data_with lk name =
     run_steps [step_wikipedia lk, step_news lk, step_official_website lk, step_stock lk, step_quality]
       \<lparr>company_name = name,
        company_info = \<lparr>ci_description = None, ci_url = None, ci_title = None, ci_official_url = None\<rparr>,
        news = [],
        stock_performance = None,
        sources = [],
        data_quality = Q_unknown,
        error_msg = None\<rparr>"

text \<open>\<open>collect_data\<close> of the agent: the lookups are its own methods.\<close>

definition agent_lookups :: "world \<Rightarrow> lookups" where
  "agent_lookups w =
     \<lparr>lk_wikipedia = (\<lambda>name. Inr (search_wikipedia w name)),
      lk_news = (\<lambda>name. Inr (search_news w name)),
      lk_official_website = (\<lambda>name. Inr (search_official_website w name)),
      lk_stock = (\<lambda>name. Inr (snd (get_stock_data_multi_source w name)))\<rparr>"

definition collect_data :: "world \<Rightarrow> ustr \<Rightarrow> profile" where
  "collect_data w name = collect_data_with (agent_lookups w) name"

section \<open>The analyst's use of the description\<close>

text \<open>
  \<open>"can refer to" in s.lower() or "may refer to" in s.lower()\<close>
\<close>

definition disambiguation :: "ustr \<Rightarrow> bool" where
  "disambiguation s =
     (str_contains (lit ''can refer to'') (lower s) \<or> str_contains (lit ''may refer to'') (lower s))"

text \<open>
  The local \<open>description\<close> of \<open>_generate_summary\<close>: the first 400 code points of the
  profile's description (the empty string when the key is absent), emptied when they hold
  a disambiguation marker.
\<close>

definition summary_description :: "profile \<Rightarrow> ustr" where
  "summary_description raw =
     (let description = take 400 (case ci_description (company_info raw) of None \<Rightarrow> [] | Some d \<Rightarrow> d)
      in if disambiguation description then [] else description)"

text \<open>
  The \<open>context\<close> of \<open>_generate_risks_opportunities\<close>: the first 300 code points of the
  description, as they are.
\<close>

definition risks_context :: "profile \<Rightarrow> ustr" where
  "risks_context raw = take 300 (case ci_description (company_info raw) of None \<Rightarrow> [] | Some d \<Rightarrow> d)"

definition strip :: "ustr \<Rightarrow> ustr" where
  "strip s = rev (dropWhile is_space (rev (dropWhile is_space s)))"

definition trend_str :: "trend \<Rightarrow> ustr" where
  "trend_str t = (case t of Bullish \<Rightarrow> lit ''bullish'' | Bearish \<Rightarrow> lit ''bearish'' | Neutral \<Rightarrow> lit ''neutral'')"

text \<open>The prompt of \<open>_generate_summary\<close>, its three variables filled in.\<close>

definition summary_prompt :: "ustr \<Rightarrow> ustr \<Rightarrow> ustr \<Rightarrow> ustr" where
  "summary_prompt cname description stock_text =
     lit ''Write 2 sentences about '' @ cname @ lit '' the COMPANY (not the person).'' @ [10, 10]
     @ lit ''Company Info: '' @ description @ [10]
     @ lit ''Stock: '' @ stock_text @ [10, 10]
     @ lit ''Focus on what the company does. Just 2 short sentences. If info is limited, describe the industry.''"

text \<open>
  \<open>_generate_summary\<close>; \<open>llm\<close> is \<open>self.llm.invoke(prompt).content\<close>, which returns
  a text or raises.
\<close>

definition generate_summary :: "(ustr \<Rightarrow> exn + ustr) \<Rightarrow> profile \<Rightarrow> ustr" where
  "generate_summary llm raw =
     (let cname = company_name raw;
          description = summary_description raw;
          stock = stock_performance raw
      in if description = [] \<and> stock = None
         then lit ''**'' @ cname @ lit ''** - A company in the market. Limited public information available.''
         else
           (let stock_text =
                  (case stock of None \<Rightarrow> lit ''N/A'' | Some sp \<Rightarrow> current_price sp) @ lit '', ''
                  @ (case stock of None \<Rightarrow> lit ''neutral'' | Some sp \<Rightarrow> trend_str (trend sp))
                  @ lit '' trend''
            in case llm (summary_prompt cname
                          (if description \<noteq> [] then description
                           else lit ''A company in the technology/business sector'')
                          stock_text) of
                 Inl e \<Rightarrow>
                   lit ''**'' @ cname @ lit ''**'' @ [10, 10] @ cname
                   @ lit '' is a company. Analysis based on market data.''
               | Inr content \<Rightarrow>
                   (let result = strip content
                    in if disambiguation result
                       then lit ''**'' @ cname @ lit ''**'' @ [10, 10] @ cname
                            @ lit '' is a company operating in the market. Stock analysis based on available data.''
                       else lit ''**'' @ cname @ lit ''**'' @ [10, 10] @ result)))"

section \<open>The workflow\<close>

record analysis =
  executive_summary :: ustr
  market_insights :: ustr
  risks_opportunities :: ustr
  data_sources :: ustr
  analysis_quality :: data_quality

text \<open>
  \<open>AgentState\<close>. An empty \<open>analysis_results\<close> dictionary is \<open>None\<close>. A \<open>raw_data\<close>
  dictionary is read with \<open>get\<close> only, so one without the keys of a profile is the
  profile \<open>no_raw_data\<close>: no company information, no news, no sources, and the quality
  \<open>"unknown"\<close> that \<open>get\<close> defaults to.
\<close>

record agent_state =
  st_company_name :: ustr
  raw_data :: profile
  analysis_results :: "analysis option"
  st_error :: "ustr option"
  validation_passed :: bool

definition no_raw_data :: profile where
  "no_raw_data =
     \<lparr>company_name = [],
      company_info = \<lparr>ci_description = None, ci_url = None, ci_title = None, ci_official_url = None\<rparr>,
      news = [], stock_performance = None, sources = [], data_quality = Q_unknown, error_msg = None\<rparr>"

text \<open>
  The orchestrator is built from a data collector and an analyst; each is called once by
  its node and returns or raises.
\<close>

definition collect_data_node :: "(ustr \<Rightarrow> exn + profile) \<Rightarrow> agent_state \<Rightarrow> agent_state" where
  "collect_data_node collector state =
     (case collector (st_company_name state) of
        Inr raw \<Rightarrow> state\<lparr>raw_data := raw\<rparr>
      | Inl (Exn msg) \<Rightarrow>
          state\<lparr>st_error := Some (lit ''Data collection error: '' @ msg),
                raw_data := no_raw_data\<lparr>data_quality := Q_error\<rparr>,
                validation_passed := False\<rparr>)"

text \<open>\<open>bool(raw_data.get("company_info"))\<close>: the dictionary has a key.\<close>

definition has_company_info :: "profile \<Rightarrow> bool" where
  "has_company_info raw =
     (ci_description (company_info raw) \<noteq> None \<or> ci_url (company_info raw) \<noteq> None
      \<or> ci_title (company_info raw) \<noteq> None \<or> ci_official_url (company_info raw) \<noteq> None)"

definition insufficient_analysis :: "ustr \<Rightarrow> data_quality \<Rightarrow> analysis" where
  "insufficient_analysis cname quality =
     \<lparr>executive_summary = [0x26A0, 0xFE0F] @ lit '' **Insufficient Data**'' @ [10, 10]
        @ lit ''No reliable information found for '' @ cname @ lit ''.'',
      market_insights = lit ''**Data Not Available**'',
      risks_opportunities = lit ''**Data Not Available**'',
      data_sources = lit ''- No sources found'',
      analysis_quality = quality\<rparr>"

definition validate_data_node :: "agent_state \<Rightarrow> agent_state" where
  "validate_data_node state =
     (let raw = raw_data state;
          quality = data_quality raw;
          passed = (quality \<noteq> Q_error \<and> (has_company_info raw \<or> news raw \<noteq> [] \<or> sources raw \<noteq> []))
      in if passed then state\<lparr>validation_passed := True\<rparr>
         else state\<lparr>validation_passed := False,
                    analysis_results := Some (insufficient_analysis (st_company_name state) quality)\<rparr>)"

definition should_analyze :: "agent_state \<Rightarrow> bool" where
  "should_analyze state = validation_passed state"

definition failed_analysis :: analysis where
  "failed_analysis =
     \<lparr>executive_summary = lit ''Analysis unavailable due to error'',
      market_insights = lit ''Analysis unavailable'',
      risks_opportunities = lit ''Analysis unavailable'',
      data_sources = lit ''- Error occurred'',
      analysis_quality = Q_error\<rparr>"

text \<open>
  The node is reached after a validation that passed, so \<open>raw_data\<close> is not empty and
  the \<open>ValueError\<close> of the node is not raised.
\<close>

definition analyze_data_node :: "(profile \<Rightarrow> exn + analysis) \<Rightarrow> agent_state \<Rightarrow> agent_state" where
  "analyze_data_node analyst state =
     (case analyst (raw_data state) of
        Inr results \<Rightarrow> state\<lparr>analysis_results := Some results\<rparr>
      | Inl (Exn msg) \<Rightarrow>
          state\<lparr>st_error := Some (lit ''Analysis error: '' @ msg),
                analysis_results := Some failed_analysis\<rparr>)"

datatype node = Collect_data | Validate_data | Analyze_data

text \<open>
  \<open>run\<close>: the graph goes from the collection to the validation, and on to the analysis
  only when \<open>_should_analyze\<close> holds. The model returns the nodes that ran with the final
  state.
\<close>

definition run :: "(ustr \<Rightarrow> exn + profile) \<Rightarrow> (profile \<Rightarrow> exn + analysis) \<Rightarrow> ustr \<Rightarrow> node list \<times> agent_state" where
  "run collector analyst cname =
     (let initial_state = \<lparr>st_company_name = cname, raw_data = no_raw_data, analysis_results = None,
            st_error = None, validation_passed = False\<rparr>;
          collected = collect_data_node collector initial_state;
          validated = validate_data_node collected
      in if should_analyze validated
         then ([Collect_data, Validate_data, Analyze_data], analyze_data_node analyst validated)
         else ([Collect_data, Validate_data], validated))"

section \<open>Properties of the extraction\<close>

lemma first_word_vote_any:
  "first_word_vote ws text v found = (if any_in ws text then found @ [v] else found)"
  by (induction ws) (simp_all add: any_in_def)

text \<open>
  C1, as the code has it. The bullish words and the bearish words are searched one after
  the other, each search on its own: a text with a bullish word gets a bullish vote, a text
  with a bearish word gets a bearish vote, and a text with both gets both votes, the
  bullish one first. The bullish vote does not keep the bearish vote out.
\<close>

theorem extract_trend_votes:
  "trends_found (extract_trend_from_text snippet title info) =
     trends_found info
     @ (if any_in bullish_words (lower (snippet @ lit '' '' @ title)) then [Bullish] else [])
     @ (if any_in bearish_words (lower (snippet @ lit '' '' @ title)) then [Bearish] else [])"
  by (simp add: extract_trend_from_text_def Let_def first_word_vote_any)

text \<open>
  C1, as stated, fails: the snippet \<open>"shares up, then down"\<close> holds the bullish word
  \<open>"up"\<close> and the bearish word \<open>"down"\<close>, and the extractor records a bullish and a
  bearish vote for it.
\<close>

theorem trend_both_keywords_counterexample:
  "str_contains (lit ''up'') (lower (lit ''shares up, then down'' @ lit '' '' @ lit ''Acme''))
   \<and> str_contains (lit ''down'') (lower (lit ''shares up, then down'' @ lit '' '' @ lit ''Acme''))
   \<and> trends_found (extract_trend_from_text (lit ''shares up, then down'') (lit ''Acme'')
        (new_stock_info (lit ''Acme'') (lit ''ACME''))) = [Bullish, Bearish]"
  by code_simp

section \<open>Properties of the aggregation\<close>

lemma agg_trend:
  "trend (aggregate_stock_findings info cname tick) = trend_consensus (trends_found info)"
  by (simp add: aggregate_stock_findings_def Let_def)

lemma agg_recommendation:
  "recommendation (aggregate_stock_findings info cname tick) =
     fst (recommendation_consensus (recommendations_found info))"
  by (simp add: aggregate_stock_findings_def Let_def)

lemma agg_confidence:
  "confidence (aggregate_stock_findings info cname tick) =
     snd (recommendation_consensus (recommendations_found info))"
  by (simp add: aggregate_stock_findings_def Let_def)

lemma agg_current_price:
  "current_price (aggregate_stock_findings info cname tick) =
     price_display (avg_price (prices_found info))"
  by (simp add: aggregate_stock_findings_def Let_def)

text \<open>
  C3. The aggregated trend is bullish when the bullish votes outnumber the bearish ones,
  bearish when the bearish votes outnumber the bullish ones, and neutral on every tie,
  the tie of no votes at all included.
\<close>

theorem trend_majority_vote:
  "trend (aggregate_stock_findings info cname tick) =
     (if count_list (trends_found info) Bullish > count_list (trends_found info) Bearish then Bullish
      else if count_list (trends_found info) Bearish > count_list (trends_found info) Bullish then Bearish
      else Neutral)
   \<and> trend (aggregate_stock_findings (info\<lparr>trends_found := []\<rparr>) cname tick) = Neutral"
  by (cases "trends_found info") (simp_all add: agg_trend trend_consensus_def Let_def)

text \<open>
  C2, as the code has it. For a list of recommendation votes that is not empty, the
  aggregated recommendation is BUY if the BUY votes are at least as many as the SELL votes
  and as the HOLD votes; otherwise SELL if the SELL votes are more than the BUY votes and at
  least as many as the HOLD votes; otherwise HOLD. For the empty list it is HOLD.
\<close>

theorem recommendation_tie_break:
  "recommendation (aggregate_stock_findings info cname tick) =
     (if recommendations_found info = [] then HOLD
      else if count_list (recommendations_found info) BUY \<ge> count_list (recommendations_found info) SELL
            \<and> count_list (recommendations_found info) BUY \<ge> count_list (recommendations_found info) HOLD
      then BUY
      else if count_list (recommendations_found info) SELL > count_list (recommendations_found info) BUY
            \<and> count_list (recommendations_found info) SELL \<ge> count_list (recommendations_found info) HOLD
      then SELL
      else HOLD)"
  by (simp add: agg_recommendation recommendation_consensus_def Let_def)

text \<open>
  C2, as stated, fails on the empty list: there the BUY count (0) is at least the SELL
  count and the HOLD count, which the stated rule answers with BUY, and the result is HOLD.
\<close>

theorem recommendation_empty_counterexample:
  "count_list (recommendations_found (new_stock_info (lit ''Acme'') (lit ''ACME''))) BUY
     \<ge> count_list (recommendations_found (new_stock_info (lit ''Acme'') (lit ''ACME''))) SELL
   \<and> count_list (recommendations_found (new_stock_info (lit ''Acme'') (lit ''ACME''))) BUY
     \<ge> count_list (recommendations_found (new_stock_info (lit ''Acme'') (lit ''ACME''))) HOLD
   \<and> recommendation (aggregate_stock_findings (new_stock_info (lit ''Acme'') (lit ''ACME''))
        (lit ''Acme'') (lit ''ACME'')) \<noteq> BUY"
  by (simp add: agg_recommendation recommendation_consensus_def new_stock_info_def)

end
